theory Spec2Isabelle
  imports Complex_Main "HOL-Library.Word"
begin

unbundle bit_operations_syntax

section \<open>Wire types and constants (namespace DE1)\<close>

type_synonym u8 = "8 word"
type_synonym u16 = "16 word"
type_synonym u32 = "32 word"
type_synonym bytes = "u8 list"

text \<open>
  \<^verbatim>\<open>enum class State : uint8_t\<close> and \<^verbatim>\<open>enum class SubState : uint8_t\<close> are bytes
  with named values: the simulator casts any received byte to \<^verbatim>\<open>State\<close>
  (\<^verbatim>\<open>static_cast<DE1::State>(static_cast<uint8_t>(value[0]))\<close>), so every byte is a
  possible state and the names below are the enumerators the code mentions.
\<close>

abbreviation (input) Sleep :: u8 where "Sleep \<equiv> 0x00"
abbreviation (input) Idle :: u8 where "Idle \<equiv> 0x02"
abbreviation (input) Espresso :: u8 where "Espresso \<equiv> 0x04"
abbreviation (input) Steam :: u8 where "Steam \<equiv> 0x05"
abbreviation (input) HotWater :: u8 where "HotWater \<equiv> 0x06"
abbreviation (input) HotWaterRinse :: u8 where "HotWaterRinse \<equiv> 0x0F"

abbreviation (input) Ready :: u8 where "Ready \<equiv> 0"
abbreviation (input) Heating :: u8 where "Heating \<equiv> 1"
abbreviation (input) Preinfusion :: u8 where "Preinfusion \<equiv> 4"
abbreviation (input) Pouring :: u8 where "Pouring \<equiv> 5"
abbreviation (input) Ending :: u8 where "Ending \<equiv> 6"
abbreviation (input) Steaming :: u8 where "Steaming \<equiv> 7"

abbreviation (input) CHAR_VERSION :: string where "CHAR_VERSION \<equiv> ''A001''"
abbreviation (input) CHAR_REQUESTED_STATE :: string where "CHAR_REQUESTED_STATE \<equiv> ''A002''"
abbreviation (input) CHAR_READ_FROM_MMR :: string where "CHAR_READ_FROM_MMR \<equiv> ''A005''"
abbreviation (input) CHAR_WRITE_TO_MMR :: string where "CHAR_WRITE_TO_MMR \<equiv> ''A006''"
abbreviation (input) CHAR_SHOT_SETTINGS :: string where "CHAR_SHOT_SETTINGS \<equiv> ''A00B''"
abbreviation (input) CHAR_SHOT_SAMPLE :: string where "CHAR_SHOT_SAMPLE \<equiv> ''A00D''"
abbreviation (input) CHAR_STATE_INFO :: string where "CHAR_STATE_INFO \<equiv> ''A00E''"
abbreviation (input) CHAR_HEADER_WRITE :: string where "CHAR_HEADER_WRITE \<equiv> ''A00F''"
abbreviation (input) CHAR_FRAME_WRITE :: string where "CHAR_FRAME_WRITE \<equiv> ''A010''"
abbreviation (input) CHAR_WATER_LEVELS :: string where "CHAR_WATER_LEVELS \<equiv> ''A011''"

text \<open>The MMR addresses of \<^verbatim>\<open>namespace MMR\<close> that the responder tests.\<close>

abbreviation (input) MACHINE_MODEL :: u32 where "MACHINE_MODEL \<equiv> 0x80000C"
abbreviation (input) FIRMWARE_VERSION :: u32 where "FIRMWARE_VERSION \<equiv> 0x800010"
abbreviation (input) GHC_INFO :: u32 where "GHC_INFO \<equiv> 0x80381C"
abbreviation (input) GHC_MODE :: u32 where "GHC_MODE \<equiv> 0x803820"
abbreviation (input) USB_CHARGER :: u32 where "USB_CHARGER \<equiv> 0x803854"

section \<open>Binary codec (namespace BinaryCodec)\<close>

text \<open>
  The codec works on \<^verbatim>\<open>double\<close>. It is modelled on \<^typ>\<open>real\<close>. A product with
  a power of two, a quotient by one, the comparisons with 0 and 255 and the truncation are
  exact on doubles (a product that overflows is clamped to the upper bound, as the real
  product is), so the real model agrees with the code on them. A quotient by 10 is rounded
  by the code; it is exact where the result is a double, as it is at every input
  evaluated below.
\<close>

definition qBound :: "real \<Rightarrow> real \<Rightarrow> real \<Rightarrow> real" where
  "qBound mn v mx = max mn (min mx v)"

text \<open>\<^verbatim>\<open>static_cast<uint8_t>\<close> of a double truncates toward zero.\<close>

definition truncU8 :: "real \<Rightarrow> u8" where
  "truncU8 x = word_of_int (if 0 \<le> x then \<lfloor>x\<rfloor> else \<lceil>x\<rceil>)"

definition encodeU8P4 :: "real \<Rightarrow> u8" where
  "encodeU8P4 v = truncU8 (qBound 0 (v * 16) 255)"

definition decodeU8P4 :: "u8 \<Rightarrow> real" where
  "decodeU8P4 b = real (unat b) / 16"

definition decodeU8P1 :: "u8 \<Rightarrow> real" where
  "decodeU8P1 b = real (unat b) / 2"

text \<open>Pointer arguments \<^verbatim>\<open>const uint8_t* data\<close> are the byte list from that offset on.\<close>

definition decodeShortBE :: "bytes \<Rightarrow> u16" where
  "decodeShortBE d = push_bit 8 (ucast (d ! 0)) OR ucast (d ! 1)"

definition encodeUint32BE :: "u32 \<Rightarrow> bytes \<Rightarrow> bytes" where
  "encodeUint32BE v out =
     out[0 := ucast (drop_bit 24 v AND 0xFF),
         1 := ucast (drop_bit 16 v AND 0xFF),
         2 := ucast (drop_bit 8 v AND 0xFF),
         3 := ucast (v AND 0xFF)]"

definition decodeAddress :: "bytes \<Rightarrow> u32" where
  "decodeAddress d =
     push_bit 16 (ucast (d ! 0)) OR push_bit 8 (ucast (d ! 1)) OR ucast (d ! 2)"

definition decodeF8_1_7 :: "u8 \<Rightarrow> real" where
  "decodeF8_1_7 b =
     (if b AND 0x80 \<noteq> 0 then real (unat (b AND 0x7F)) else real (unat b) / 10)"

definition decodeU10P0 :: "bytes \<Rightarrow> u16" where
  "decodeU10P0 d = decodeShortBE d AND 0x3FF"

section \<open>Profile structures\<close>

record ProfileFrame =
  frameIndex :: int
  flags :: u8
  setVal :: real
  temp :: real
  duration :: real
  triggerVal :: real
  maxVol :: u16
  hasExtension :: bool
  limiterValue :: real
  limiterRange :: real

definition defaultFrame :: ProfileFrame where
  "defaultFrame = \<lparr>frameIndex = 0, flags = 0, setVal = 0, temp = 0, duration = 0,
     triggerVal = 0, maxVol = 0, hasExtension = False, limiterValue = 0, limiterRange = 0\<rparr>"

definition pumpMode :: "ProfileFrame \<Rightarrow> string" where
  "pumpMode f = (if flags f AND 0x01 \<noteq> 0 then ''Flow'' else ''Pressure'')"

record ProfileHeader =
  headerV :: u8
  numFrames :: u8
  numPreinfuseFrames :: u8
  minPressure :: real
  maxFlow :: real

definition defaultHeader :: ProfileHeader where
  "defaultHeader = \<lparr>headerV = 0, numFrames = 0, numPreinfuseFrames = 0,
     minPressure = 0, maxFlow = 0\<rparr>"

section \<open>The simulator (class DE1Simulator)\<close>

text \<open>
  The log view is a list of lines, each a category and a message. A message records which
  format string the code fills and the values it fills in; the timestamp and the rendering
  to text are left out.
\<close>

datatype responseVal = RvNumber int | RvText string

datatype logmsg =
    PiReady string
  | PiAdvertising
  | PiConnected string
  | PiDisconnected
  | CharReadMsg string
  | PiBleError int
  | JsonParseError
  | RequestedStateMsg u8
  | GhcBlocked u8
  | MmrReadMsg u32
  | MmrResponseMsg u32 responseVal
  | MmrWriteMsg u32 u32
  | HeaderInvalidSize nat
  | HeaderMsg ProfileHeader
  | FrameInvalidSize nat
  | FrameExtMsg int real real
  | FrameTailMsg
  | FrameMsg u8 ProfileFrame
  | FrameOutOfRange u8
  | ShotSettingsInvalidSize nat
  | ShotSettingsMsg u8 u8 u8 u8 u8 real
  | StateInfoMsg u8 u8
  | OtherWriteMsg string bytes

text \<open>
  A command written to the control socket: \<^verbatim>\<open>{cmd:"notify", char, data}\<close>, the data
  kept as the bytes that \<^verbatim>\<open>toHex\<close> renders.
\<close>

datatype command = Notify string bytes

text \<open>
  A parsed line of the control channel, as \<^verbatim>\<open>handlePiEvent\<close> reads the JSON object:
  the value of \<^verbatim>\<open>"event"\<close> and the fields the matching branch takes
  (\<^verbatim>\<open>"data"\<close> after \<^verbatim>\<open>QByteArray::fromHex\<close>).
\<close>

datatype pi_event =
    EvReady string
  | EvAdvertising
  | EvConnected string
  | EvDisconnected
  | EvWrite string bytes
  | EvRead string
  | EvError int
  | EvOther

text \<open>
  The fields of the window that the engine reads and writes. \<open>socketConnected\<close> is
  \<^verbatim>\<open>m_socket->state() == QAbstractSocket::ConnectedState\<close>; \<open>ghcStatus\<close> is
  \<^verbatim>\<open>m_ghcCombo->currentData().toInt()\<close>; a \<^verbatim>\<open>QTimer\<close> is whether it is active
  (for the phase timer, with the interval it was started with); \<open>outbox\<close> is what has
  been written to the socket and \<open>logView\<close> the lines of the log. The labels and buttons
  that only display these fields are left out.
\<close>

record sim =
  socketConnected :: bool
  tcpBuffer :: bytes
  currentState :: u8
  currentSubState :: u8
  profileHeader :: ProfileHeader
  profileFrames :: "ProfileFrame list"
  pressure :: real
  flow :: real
  temperature :: real
  setTemp :: real
  setPressure :: real
  setFlow :: real
  shotTimer_s :: real
  waterLevel :: real
  steamTemp :: real
  frameNumber :: int
  shotTimer :: bool
  phaseTimer :: "nat option"
  waterTimer :: bool
  ghcStatus :: int
  outbox :: "command list"
  logView :: "(string \<times> logmsg) list"

text \<open>The window as constructed: the member initialisers, and GHC entry 3 selected.\<close>

definition initialSim :: sim where
  "initialSim = \<lparr>socketConnected = False, tcpBuffer = [],
     currentState = Idle, currentSubState = Ready,
     profileHeader = defaultHeader, profileFrames = [],
     pressure = 0, flow = 0, temperature = 93, setTemp = 93, setPressure = 9,
     setFlow = 2, shotTimer_s = 0, waterLevel = 75, steamTemp = 0, frameNumber = 0,
     shotTimer = False, phaseTimer = None, waterTimer = False,
     ghcStatus = 3, outbox = [], logView = []\<rparr>"

text \<open>
  \<^verbatim>\<open>log\<close> appends one line to the log view, which was set up with
  \<^verbatim>\<open>setMaximumBlockCount(1000)\<close>: beyond 1000 lines the oldest are removed.
\<close>

definition lastLines :: "nat \<Rightarrow> 'a list \<Rightarrow> 'a list" where
  "lastLines n xs = drop (length xs - n) xs"

definition logMsg :: "string \<Rightarrow> logmsg \<Rightarrow> sim \<Rightarrow> sim" where
  "logMsg category msg s =
     s\<lparr>logView := lastLines 1000 (logView s @ [(category, msg)])\<rparr>"

definition logRx :: "logmsg \<Rightarrow> sim \<Rightarrow> sim" where
  "logRx msg s = logMsg ''RX'' msg s"

definition logTx :: "logmsg \<Rightarrow> sim \<Rightarrow> sim" where
  "logTx msg s = logMsg ''TX'' msg s"

definition logPi :: "logmsg \<Rightarrow> sim \<Rightarrow> sim" where
  "logPi msg s = logMsg ''PI'' msg s"

subsection \<open>Sending to the Pi\<close>

definition sendCommand :: "command \<Rightarrow> sim \<Rightarrow> sim" where
  "sendCommand cmd s =
     (if \<not> socketConnected s then s else s\<lparr>outbox := outbox s @ [cmd]\<rparr>)"

definition sendNotification :: "string \<Rightarrow> bytes \<Rightarrow> sim \<Rightarrow> sim" where
  "sendNotification charId data s = sendCommand (Notify charId data) s"

definition sendStateNotification :: "sim \<Rightarrow> sim" where
  "sendStateNotification s =
     (let data = (replicate 2 0)[0 := currentState s, 1 := currentSubState s]
      in logTx (StateInfoMsg (currentState s) (currentSubState s))
           (sendNotification CHAR_STATE_INFO data s))"

definition truncU16 :: "real \<Rightarrow> u16" where
  "truncU16 x = word_of_int (if 0 \<le> x then \<lfloor>x\<rfloor> else \<lceil>x\<rceil>)"

definition encodeU16P8 :: "real \<Rightarrow> u16" where
  "encodeU16P8 v = truncU16 (qBound 0 (v * 256) 65535)"

definition encodeShortBE :: "u16 \<Rightarrow> bytes \<Rightarrow> bytes" where
  "encodeShortBE v out =
     out[0 := ucast (drop_bit 8 v AND 0xFF), 1 := ucast (v AND 0xFF)]"

definition sendWaterLevel :: "sim \<Rightarrow> sim" where
  "sendWaterLevel s =
     (if \<not> socketConnected s then s
      else let waterMm = (waterLevel s / 100) * 40 - 5;
               encoded = encodeU16P8 waterMm;
               data = encodeShortBE encoded (replicate 2 0)
           in sendNotification CHAR_WATER_LEVELS data s)"

subsection \<open>State transitions and the phase timer\<close>

definition transitionToState :: "u8 \<Rightarrow> u8 \<Rightarrow> sim \<Rightarrow> sim" where
  "transitionToState st sub s =
     sendStateNotification (s\<lparr>currentState := st, currentSubState := sub\<rparr>)"

definition stopOperation :: "sim \<Rightarrow> sim" where
  "stopOperation s =
     transitionToState Idle Ready
       (s\<lparr>shotTimer := False, phaseTimer := None,
          pressure := 0, flow := 0, steamTemp := 0, frameNumber := 0\<rparr>)"

definition startOperation :: "u8 \<Rightarrow> sim \<Rightarrow> sim" where
  "startOperation st s =
     (if currentState s \<noteq> Idle \<and> currentState s \<noteq> Sleep then s
      else
        let s1 = s\<lparr>shotTimer_s := 0, pressure := 0, flow := 0, frameNumber := 0\<rparr>;
            s2 = (if st = Espresso then
                    (transitionToState Espresso Heating s1)\<lparr>phaseTimer := Some 2000\<rparr>
                  else if st = Steam then
                    (transitionToState Steam Steaming s1)\<lparr>phaseTimer := Some 45000\<rparr>
                  else if st = HotWater then
                    (transitionToState HotWater Pouring s1)\<lparr>phaseTimer := Some 30000\<rparr>
                  else if st = HotWaterRinse then
                    (transitionToState HotWaterRinse Pouring s1)\<lparr>phaseTimer := Some 10000\<rparr>
                  else s1)
        in s2\<lparr>shotTimer := True\<rparr>)"

definition onPhaseTimeout :: "sim \<Rightarrow> sim" where
  "onPhaseTimeout s =
     (if currentState s = Espresso then
        (if currentSubState s = Heating then
           (transitionToState Espresso Preinfusion s)\<lparr>phaseTimer := Some 5000\<rparr>
         else if currentSubState s = Preinfusion then
           (transitionToState Espresso Pouring s)\<lparr>phaseTimer := Some 25000\<rparr>
         else if currentSubState s = Pouring then
           (transitionToState Espresso Ending s)\<lparr>phaseTimer := Some 2000\<rparr>
         else if currentSubState s = Ending then stopOperation s
         else s)
      else if currentState s = Steam then stopOperation s
      else if currentState s = HotWater then stopOperation s
      else if currentState s = HotWaterRinse then stopOperation s
      else s)"

text \<open>
  The phase timer is single-shot (\<^verbatim>\<open>m_phaseTimer->setSingleShot(true)\<close>): when it
  expires it is no longer active, and then its slot \<^verbatim>\<open>onPhaseTimeout\<close> runs, which may
  start it again. An inactive timer does not expire.
\<close>

definition phaseTimerExpires :: "sim \<Rightarrow> sim" where
  "phaseTimerExpires s =
     (case phaseTimer s of
        None \<Rightarrow> s
      | Some ms \<Rightarrow> onPhaseTimeout (s\<lparr>phaseTimer := None\<rparr>))"

text \<open>
  The run of the phase timer from a state: one entry (state, substate, timer) after each
  expiry, until the timer is inactive. The loop is the event loop's, so it carries fuel.
\<close>

fun phaseRun :: "nat \<Rightarrow> sim \<Rightarrow> (u8 \<times> u8 \<times> nat option) list" where
  "phaseRun 0 s = []"
| "phaseRun (Suc n) s =
     (case phaseTimer s of
        None \<Rightarrow> []
      | Some ms \<Rightarrow>
          (let s' = phaseTimerExpires s
           in (currentState s', currentSubState s', phaseTimer s') # phaseRun n s'))"

subsection \<open>Operator commands\<close>

definition onPowerClicked :: "sim \<Rightarrow> sim" where
  "onPowerClicked s =
     (if currentState s = Sleep then transitionToState Idle Ready s
      else transitionToState Sleep Ready (stopOperation s))"

definition onEspressoClicked :: "sim \<Rightarrow> sim" where
  "onEspressoClicked s =
     (if currentState s = Espresso then stopOperation s else startOperation Espresso s)"

definition onSteamClicked :: "sim \<Rightarrow> sim" where
  "onSteamClicked s =
     (if currentState s = Steam then stopOperation s else startOperation Steam s)"

definition onHotWaterClicked :: "sim \<Rightarrow> sim" where
  "onHotWaterClicked s =
     (if currentState s = HotWater then stopOperation s else startOperation HotWater s)"

definition onFlushClicked :: "sim \<Rightarrow> sim" where
  "onFlushClicked s =
     (if currentState s = HotWaterRinse then stopOperation s
      else startOperation HotWaterRinse s)"

definition onStopClicked :: "sim \<Rightarrow> sim" where
  "onStopClicked s = stopOperation s"

subsection \<open>Characteristic writes\<close>

definition handleRequestedState :: "u8 \<Rightarrow> sim \<Rightarrow> sim" where
  "handleRequestedState requested s =
     (if ghcStatus s = 3 \<and> requested \<noteq> Sleep \<and> requested \<noteq> Idle then
        logMsg ''WARN'' (GhcBlocked requested) s
      else transitionToState requested Ready s)"

definition handleMMRReadRequest :: "bytes \<Rightarrow> sim \<Rightarrow> sim" where
  "handleMMRReadRequest v s =
     (if length v < 4 then s
      else
        let address = decodeAddress (drop 1 v);
            s1 = logRx (MmrReadMsg address) s;
            response = encodeUint32BE address (replicate 8 0);
            (response', responseVal) =
              (if address = GHC_INFO then
                 (response[4 := word_of_int (ghcStatus s)], RvNumber (ghcStatus s))
               else if address = USB_CHARGER then
                 (response[4 := 1], RvText ''1 (on)'')
               else if address = MACHINE_MODEL then
                 (response[4 := 2], RvText ''2 (DE1Plus)'')
               else if address = FIRMWARE_VERSION then
                 (response[4 := 1, 5 := 0, 6 := 0, 7 := 0], RvText ''1.0.0.0'')
               else (response, RvText ''0 (unknown addr)''))
        in logTx (MmrResponseMsg address responseVal)
             (sendNotification CHAR_READ_FROM_MMR response' s1))"

definition handleMMRWrite :: "bytes \<Rightarrow> sim \<Rightarrow> sim" where
  "handleMMRWrite v s =
     (if length v < 8 then s
      else
        let address = decodeAddress (drop 1 v);
            val = ucast (v ! 4) OR push_bit 8 (ucast (v ! 5))
                  OR push_bit 16 (ucast (v ! 6)) OR push_bit 24 (ucast (v ! 7))
        in logRx (MmrWriteMsg address val) s)"

definition handleHeaderWrite :: "bytes \<Rightarrow> sim \<Rightarrow> sim" where
  "handleHeaderWrite v s =
     (if length v < 5 then logRx (HeaderInvalidSize (length v)) s
      else
        let h = (profileHeader s)\<lparr>headerV := v ! 0, numFrames := v ! 1,
                  numPreinfuseFrames := v ! 2,
                  minPressure := decodeU8P4 (v ! 3), maxFlow := decodeU8P4 (v ! 4)\<rparr>;
            s1 = s\<lparr>profileHeader := h,
                   profileFrames := replicate (unat (numFrames h)) defaultFrame\<rparr>
        in logRx (HeaderMsg h) s1)"

definition handleFrameWrite :: "bytes \<Rightarrow> sim \<Rightarrow> sim" where
  "handleFrameWrite v s =
     (if length v < 8 then logRx (FrameInvalidSize (length v)) s
      else
        let frameIdx = v ! 0 in
        if frameIdx \<ge> 32 then
          (let actualIdx = uint frameIdx - 32 in
           if actualIdx < int (length (profileFrames s)) then
             (let f = (profileFrames s ! nat actualIdx)\<lparr>hasExtension := True,
                        limiterValue := decodeU8P4 (v ! 1),
                        limiterRange := decodeU8P4 (v ! 2)\<rparr>
              in logRx (FrameExtMsg actualIdx (limiterValue f) (limiterRange f))
                   (s\<lparr>profileFrames := (profileFrames s)[nat actualIdx := f]\<rparr>))
           else s)
        else if frameIdx = numFrames (profileHeader s) then logRx FrameTailMsg s
        else if uint frameIdx < int (length (profileFrames s)) then
          (let f = (profileFrames s ! unat frameIdx)\<lparr>frameIndex := uint frameIdx,
                     flags := v ! 1,
                     setVal := decodeU8P4 (v ! 2),
                     temp := decodeU8P1 (v ! 3),
                     duration := decodeF8_1_7 (v ! 4),
                     triggerVal := decodeU8P4 (v ! 5),
                     maxVol := decodeU10P0 (drop 6 v)\<rparr>
           in logRx (FrameMsg frameIdx f)
                (s\<lparr>profileFrames := (profileFrames s)[unat frameIdx := f]\<rparr>))
        else logRx (FrameOutOfRange frameIdx) s)"

definition handleShotSettings :: "bytes \<Rightarrow> sim \<Rightarrow> sim" where
  "handleShotSettings v s =
     (if length v < 9 then logRx (ShotSettingsInvalidSize (length v)) s
      else
        let steamTemp = v ! 1; steamDuration = v ! 2;
            hotWaterTemp = v ! 3; hotWaterVol = v ! 4; espressoVol = v ! 6;
            groupTemp = real (unat (decodeShortBE (drop 7 v))) / 256
        in logRx (ShotSettingsMsg steamTemp steamDuration hotWaterTemp hotWaterVol
                    espressoVol groupTemp) s)"

definition handleCharacteristicWrite :: "string \<Rightarrow> bytes \<Rightarrow> sim \<Rightarrow> sim" where
  "handleCharacteristicWrite charId v s =
     (if charId = CHAR_REQUESTED_STATE then
        (if length v \<ge> 1 then
           (let requestedState = v ! 0
            in handleRequestedState requestedState (logRx (RequestedStateMsg requestedState) s))
         else s)
      else if charId = CHAR_READ_FROM_MMR then handleMMRReadRequest v s
      else if charId = CHAR_WRITE_TO_MMR then handleMMRWrite v s
      else if charId = CHAR_HEADER_WRITE then handleHeaderWrite v s
      else if charId = CHAR_FRAME_WRITE then handleFrameWrite v s
      else if charId = CHAR_SHOT_SETTINGS then handleShotSettings v s
      else logRx (OtherWriteMsg charId v) s)"

subsection \<open>The control channel\<close>

fun handlePiEvent :: "pi_event \<Rightarrow> sim \<Rightarrow> sim" where
  "handlePiEvent (EvReady version) s =
     sendWaterLevel (sendStateNotification (logPi (PiReady version) s))"
| "handlePiEvent EvAdvertising s = logPi PiAdvertising s"
| "handlePiEvent (EvConnected client) s = logPi (PiConnected client) s"
| "handlePiEvent EvDisconnected s = logPi PiDisconnected s"
| "handlePiEvent (EvWrite charId data) s = handleCharacteristicWrite charId data s"
| "handlePiEvent (EvRead charId) s = logRx (CharReadMsg charId) s"
| "handlePiEvent (EvError code) s = logMsg ''ERROR'' (PiBleError code) s"
| "handlePiEvent EvOther s = s"

text \<open>\<^verbatim>\<open>QByteArray::indexOf\<close>: the first position of a byte, if there is one.\<close>

fun indexOf :: "bytes \<Rightarrow> u8 \<Rightarrow> nat option" where
  "indexOf [] c = None"
| "indexOf (x # xs) c =
     (if x = c then Some 0 else map_option Suc (indexOf xs c))"

text \<open>
  The loop of \<^verbatim>\<open>onDataReceived\<close>. \<^verbatim>\<open>QJsonDocument::fromJson\<close> and the reading of
  the object's fields are the parameter \<open>parse\<close>: \<open>None\<close> is a parse error. The argument
  \<open>buf\<close> is \<^verbatim>\<open>m_tcpBuffer\<close>, which only this loop writes; it is stored in the state
  before a handler runs, and the recursion is on it.
\<close>

function processLines :: "(bytes \<Rightarrow> pi_event option) \<Rightarrow> bytes \<Rightarrow> sim \<Rightarrow> sim" where
  "processLines parse buf s =
     (case indexOf buf 0x0A of
        None \<Rightarrow> s\<lparr>tcpBuffer := buf\<rparr>
      | Some idx \<Rightarrow>
          (let line = take idx buf; buf' = drop (idx + 1) buf;
               s1 = s\<lparr>tcpBuffer := buf'\<rparr> in
           if line = [] then processLines parse buf' s1
           else
             (case parse line of
                None \<Rightarrow> processLines parse buf' (logMsg ''ERROR'' JsonParseError s1)
              | Some ev \<Rightarrow> processLines parse buf' (handlePiEvent ev s1))))"
  by pat_completeness auto
termination
proof (relation "measure (\<lambda>(parse, buf, s). length buf)")
  show "wf (measure (\<lambda>(parse, buf, s). length buf))"
    by simp
next
  fix parse :: "bytes \<Rightarrow> pi_event option" and buf :: bytes and s :: sim
    and idx line buf' s1
  assume "indexOf buf 0x0A = Some idx" and "buf' = drop (idx + 1) buf"
  then show "((parse, buf', s1), (parse, buf, s)) \<in> measure (\<lambda>(parse, buf, s). length buf)"
    by (cases buf) auto
next
  fix parse :: "bytes \<Rightarrow> pi_event option" and buf :: bytes and s :: sim
    and idx line buf' s1
  assume "indexOf buf 0x0A = Some idx" and "buf' = drop (idx + 1) buf"
  then show "((parse, buf', logMsg ''ERROR'' JsonParseError s1), (parse, buf, s))
      \<in> measure (\<lambda>(parse, buf, s). length buf)"
    by (cases buf) auto
next
  fix parse :: "bytes \<Rightarrow> pi_event option" and buf :: bytes and s :: sim
    and idx line buf' s1 ev
  assume "indexOf buf 0x0A = Some idx" and "buf' = drop (idx + 1) buf"
  then show "((parse, buf', handlePiEvent ev s1), (parse, buf, s))
      \<in> measure (\<lambda>(parse, buf, s). length buf)"
    by (cases buf) auto
qed

definition onDataReceived :: "(bytes \<Rightarrow> pi_event option) \<Rightarrow> bytes \<Rightarrow> sim \<Rightarrow> sim" where
  "onDataReceived parse incoming s = processLines parse (tcpBuffer s @ incoming) s"

declare processLines.simps [simp del]

text \<open>The events of the control channel handled one after the other, as the loop does.\<close>

fun handlePiEvents :: "pi_event list \<Rightarrow> sim \<Rightarrow> sim" where
  "handlePiEvents [] s = s"
| "handlePiEvents (ev # evs) s = handlePiEvents evs (handlePiEvent ev s)"

section \<open>The Radio Agent (class DE1BleDaemon)\<close>

text \<open>
  The repository holds the agent twice: \<^verbatim>\<open>pi-daemon/de1-ble-daemon.cpp\<close>, and the copy
  in the string \<^verbatim>\<open>DAEMON_CPP\<close> of \<^verbatim>\<open>main.cpp\<close> that the setup dialog writes out and
  builds on the Pi. Both keep the same fields. \<open>tcpClient\<close> is \<^verbatim>\<open>m_tcpClient\<close>:
  \<open>None\<close> for the null pointer, otherwise whether the socket is in the connected state;
  \<open>de1Service\<close> is whether \<^verbatim>\<open>m_de1Service\<close> is set; \<open>advertising\<close> is whether the
  peripheral controller advertises, which \<^verbatim>\<open>startAdvertising\<close> and
  \<^verbatim>\<open>stopAdvertising\<close> of the controller switch; \<open>characteristics\<close> the value of each
  characteristic by short id; \<open>toWindows\<close> the events written to the Controller.
\<close>

record daemon =
  tcpClient :: "bool option"
  de1Service :: bool
  advertising :: bool
  characteristics :: "string \<rightharpoonup> bytes"
  toWindows :: "pi_event list"

subsection \<open>The agent of pi-daemon/de1-ble-daemon.cpp\<close>

definition sendToWindows :: "pi_event \<Rightarrow> daemon \<Rightarrow> daemon" where
  "sendToWindows ev d =
     (if tcpClient d = None \<or> tcpClient d \<noteq> Some True then d
      else d\<lparr>toWindows := toWindows d @ [ev]\<rparr>)"

definition startAdvertising :: "daemon \<Rightarrow> daemon" where
  "startAdvertising d =
     (if \<not> de1Service d then d
      else sendToWindows EvAdvertising (d\<lparr>advertising := True\<rparr>))"

definition stopAdvertising :: "daemon \<Rightarrow> daemon" where
  "stopAdvertising d = d\<lparr>advertising := False\<rparr>"

definition onTcpConnection :: "daemon \<Rightarrow> daemon" where
  "onTcpConnection d =
     (if tcpClient d \<noteq> None then d
      else sendToWindows (EvReady ''1.0.0'') (d\<lparr>tcpClient := Some True\<rparr>))"

text \<open>
  The slot connected to the client socket's \<^verbatim>\<open>disconnected\<close> signal in
  \<^verbatim>\<open>onTcpConnection\<close>; its comment reads
  \<^verbatim>\<open>Keep advertising - don't stop when Windows disconnects\<close>.
\<close>

definition onTcpDisconnected :: "daemon \<Rightarrow> daemon" where
  "onTcpDisconnected d = d\<lparr>tcpClient := None\<rparr>"

definition onBleDisconnected :: "daemon \<Rightarrow> daemon" where
  "onBleDisconnected d = startAdvertising (sendToWindows EvDisconnected d)"

subsection \<open>The agent embedded in main.cpp (DAEMON_CPP)\<close>

text \<open>
  The slot the embedded copy connects to the same signal:
  \<^verbatim>\<open>[this]() { m_tcpClient = nullptr; m_bleController->stopAdvertising(); }\<close>.
\<close>

definition embedded_onTcpDisconnected :: "daemon \<Rightarrow> daemon" where
  "embedded_onTcpDisconnected d = (d\<lparr>tcpClient := None\<rparr>)\<lparr>advertising := False\<rparr>"

text \<open>An agent with its service, advertising, and a Controller attached.\<close>

definition attachedDaemon :: daemon where
  "attachedDaemon = \<lparr>tcpClient = Some True, de1Service = True, advertising = True,
     characteristics = [CHAR_STATE_INFO \<mapsto> [0x02, 0x00]], toWindows = [EvReady ''1.0.0'']\<rparr>"

section \<open>Definitions that follow the specification's words\<close>

text \<open>
  A 32-bit value as four bytes, most significant first and least significant first: the
  layouts the specification names for the two halves of an MMR response.
\<close>

definition specBE32 :: "u32 \<Rightarrow> bytes" where
  "specBE32 w = [ucast (drop_bit 24 w), ucast (drop_bit 16 w), ucast (drop_bit 8 w), ucast w]"

definition specLE32 :: "u32 \<Rightarrow> bytes" where
  "specLE32 w = [ucast w, ucast (drop_bit 8 w), ucast (drop_bit 16 w), ucast (drop_bit 24 w)]"

text \<open>
  The specification's table of canned values, by address, with the row of the GHC mode at
  \<^verbatim>\<open>MMR::GHC_INFO = 0x80381C\<close>, the address the responder compares with.
\<close>

definition specCannedValue :: "int \<Rightarrow> u32 \<Rightarrow> u32" where
  "specCannedValue ghc address =
     (if address = GHC_INFO then word_of_int ghc
      else if address = USB_CHARGER then 1
      else if address = MACHINE_MODEL then 2
      else if address = FIRMWARE_VERSION then 0x00000001
      else 0)"

text \<open>
  The upload of a profile whose primary frames are written in ascending order: a header
  declaring \<open>N\<close> frames, then one frame write for each wire index below \<open>N\<close>, all other
  bytes zero.
\<close>

definition ascendingUpload :: "nat \<Rightarrow> pi_event list" where
  "ascendingUpload N =
     EvWrite CHAR_HEADER_WRITE [0x01, of_nat N, 0x00, 0x00, 0x00]
     # map (\<lambda>i. EvWrite CHAR_FRAME_WRITE [of_nat i, 0, 0, 0, 0, 0, 0, 0]) [0..<N]"

section \<open>The codec: U8P4 round trip and clamping\<close>

lemma encodeU8P4_floor:
  assumes "0 \<le> v" and "v \<le> 15.9375"
  shows "encodeU8P4 v = word_of_int \<lfloor>v * 16\<rfloor>"
  using assms by (simp add: encodeU8P4_def qBound_def truncU8_def min_def max_def)

lemma decodeU8P4_of_floor:
  assumes "0 \<le> k" and "k \<le> 255"
  shows "decodeU8P4 (word_of_int k) = real_of_int k / 16"
proof -
  have "unat (word_of_int k :: u8) = nat k"
    using assms by (simp add: unat_eq_nat_uint uint_word_of_int take_bit_int_eq_self)
  then show ?thesis
    using assms by (simp add: decodeU8P4_def)
qed

lemma U8P4_roundtrip:
  assumes "0 \<le> v" and "v \<le> 15.9375"
  shows "\<bar>decodeU8P4 (encodeU8P4 v) - v\<bar> \<le> 1 / 16"
proof -
  define k where "k = \<lfloor>v * 16\<rfloor>"
  have k0: "0 \<le> k"
    using assms by (simp add: k_def)
  have "v * 16 \<le> 255"
    using assms by simp
  then have k255: "k \<le> 255"
    unfolding k_def by (simp add: floor_le_iff)
  have dec: "decodeU8P4 (encodeU8P4 v) = real_of_int k / 16"
    using encodeU8P4_floor [OF assms] decodeU8P4_of_floor [OF k0 k255] by (simp add: k_def)
  have "real_of_int k \<le> v * 16" and "v * 16 < real_of_int k + 1"
    unfolding k_def by linarith+
  then show ?thesis
    unfolding dec by (simp add: abs_le_iff field_simps)
qed

lemma encodeU8P4_below:
  assumes "v < 0"
  shows "encodeU8P4 v = encodeU8P4 0"
  using assms
  by (simp add: encodeU8P4_def qBound_def truncU8_def min_def max_def mult_less_0_iff)

lemma encodeU8P4_above:
  assumes "v > 15.9375"
  shows "encodeU8P4 v = 255"
  using assms by (simp add: encodeU8P4_def qBound_def truncU8_def min_def max_def)

text \<open>
  Claim C7. For every real \<open>v\<close> in \<open>[0, 15.9375]\<close>, decoding the U8P4 encoding of \<open>v\<close>
  gives a value within \<open>1/16\<close> of \<open>v\<close>; every \<open>v < 0\<close> encodes as \<open>0\<close> does, and every
  \<open>v > 15.9375\<close> encodes as 255: the encoder clamps and does not wrap.
\<close>

theorem C7_encodeU8P4_roundtrip_and_clamp:
  "(0 \<le> v \<and> v \<le> 15.9375 \<longrightarrow> \<bar>decodeU8P4 (encodeU8P4 v) - v\<bar> \<le> 1 / 16)
   \<and> (v < 0 \<longrightarrow> encodeU8P4 v = encodeU8P4 0)
   \<and> (v > 15.9375 \<longrightarrow> encodeU8P4 v = 255)"
  using U8P4_roundtrip [of v] encodeU8P4_below [of v] encodeU8P4_above [of v] by blast

theorem C7_encodeU8P4_witness:
  "\<bar>decodeU8P4 (encodeU8P4 (103 / 100)) - 103 / 100\<bar> \<le> 1 / 16
   \<and> encodeU8P4 (- 1) = encodeU8P4 0
   \<and> encodeU8P4 20 = 255"
  using C7_encodeU8P4_roundtrip_and_clamp [of "103 / 100"]
    C7_encodeU8P4_roundtrip_and_clamp [of "- 1"]
    C7_encodeU8P4_roundtrip_and_clamp [of 20]
  by simp

section \<open>The profile assembler: a primary frame\<close>

lemmas write_defs =
  handleCharacteristicWrite_def handleRequestedState_def handleMMRReadRequest_def
  handleMMRWrite_def handleHeaderWrite_def handleFrameWrite_def handleShotSettings_def
  transitionToState_def sendStateNotification_def sendNotification_def sendCommand_def
  logRx_def logTx_def logPi_def logMsg_def

lemma frame_after_header:
  assumes "5 \<le> length h" and "h ! 1 \<noteq> 0" and "8 \<le> length v" and "v ! 0 = 0"
  shows "profileFrames (handleCharacteristicWrite CHAR_FRAME_WRITE v
           (handleCharacteristicWrite CHAR_HEADER_WRITE h s)) ! 0
         = defaultFrame\<lparr>frameIndex := 0, flags := v ! 1,
             setVal := decodeU8P4 (v ! 2), temp := decodeU8P1 (v ! 3),
             duration := decodeF8_1_7 (v ! 4), triggerVal := decodeU8P4 (v ! 5),
             maxVol := decodeU10P0 (drop 6 v)\<rparr>"
proof -
  have "0 < unat (h ! 1)"
    using assms(2) by (simp add: unat_gt_0)
  then obtain m where m: "unat (h ! 1) = Suc m"
    by (cases "unat (h ! 1)") auto
  have ne: "(0::u8) \<noteq> h ! 1"
    using assms(2) by auto
  show ?thesis
    using assms(1,3,4) ne m by (simp add: write_defs Let_def)
qed

text \<open>
  Claim C8. After a header declaring at least one frame, the frame write
  \<open>00 01 40 BE 32 00 00 64\<close> sets frame 0 to pump mode Flow (flags bit 0 set),
  setVal 4.0, temp 95.0, duration 5.0, triggerVal 0 and maxVol 100; and for any primary
  write to frame 0 the fields come from bytes 1..7 as flags (U8), setVal (U8P4),
  temp (U8P1), duration (F8_1_7), triggerVal (U8P4) and maxVol (U10P0).
\<close>

theorem C8_frame_write_decodes:
  assumes "5 \<le> length h" and "h ! 1 \<noteq> 0"
  shows "(let f = profileFrames
                    (handleCharacteristicWrite CHAR_FRAME_WRITE
                       [0x00, 0x01, 0x40, 0xBE, 0x32, 0x00, 0x00, 0x64]
                       (handleCharacteristicWrite CHAR_HEADER_WRITE h s)) ! 0
          in pumpMode f = ''Flow'' \<and> flags f AND 0x01 = 1 \<and> setVal f = 4 \<and> temp f = 95
             \<and> duration f = 5 \<and> triggerVal f = 0 \<and> maxVol f = 100 \<and> frameIndex f = 0)
         \<and> (\<forall>v. 8 \<le> length v \<and> v ! 0 = 0 \<longrightarrow>
               (let f = profileFrames
                          (handleCharacteristicWrite CHAR_FRAME_WRITE v
                             (handleCharacteristicWrite CHAR_HEADER_WRITE h s)) ! 0
                in flags f = v ! 1 \<and> setVal f = decodeU8P4 (v ! 2)
                   \<and> temp f = decodeU8P1 (v ! 3) \<and> duration f = decodeF8_1_7 (v ! 4)
                   \<and> triggerVal f = decodeU8P4 (v ! 5)
                   \<and> maxVol f = decodeU10P0 (drop 6 v)))"
proof (intro conjI allI impI)
  show "let f = profileFrames
                  (handleCharacteristicWrite CHAR_FRAME_WRITE
                     [0x00, 0x01, 0x40, 0xBE, 0x32, 0x00, 0x00, 0x64]
                     (handleCharacteristicWrite CHAR_HEADER_WRITE h s)) ! 0
        in pumpMode f = ''Flow'' \<and> flags f AND 0x01 = 1 \<and> setVal f = 4 \<and> temp f = 95
           \<and> duration f = 5 \<and> triggerVal f = 0 \<and> maxVol f = 100 \<and> frameIndex f = 0"
    using assms
    by (simp add: frame_after_header pumpMode_def decodeU8P4_def decodeU8P1_def
        decodeF8_1_7_def decodeU10P0_def decodeShortBE_def)
next
  fix v :: bytes
  assume "8 \<le> length v \<and> v ! 0 = 0"
  then show "let f = profileFrames
                  (handleCharacteristicWrite CHAR_FRAME_WRITE v
                     (handleCharacteristicWrite CHAR_HEADER_WRITE h s)) ! 0
        in flags f = v ! 1 \<and> setVal f = decodeU8P4 (v ! 2)
           \<and> temp f = decodeU8P1 (v ! 3) \<and> duration f = decodeF8_1_7 (v ! 4)
           \<and> triggerVal f = decodeU8P4 (v ! 5) \<and> maxVol f = decodeU10P0 (drop 6 v)"
    using assms by (simp add: frame_after_header)
qed

theorem C8_frame_write_witness:
  "(let f = profileFrames
              (handleCharacteristicWrite CHAR_FRAME_WRITE
                 [0x00, 0x01, 0x40, 0xBE, 0x32, 0x00, 0x00, 0x64]
                 (handleCharacteristicWrite CHAR_HEADER_WRITE [0x01, 0x03, 0x01, 0x10, 0x20]
                    initialSim)) ! 0
    in pumpMode f = ''Flow'' \<and> setVal f = 4 \<and> temp f = 95 \<and> duration f = 5
       \<and> triggerVal f = 0 \<and> maxVol f = 100)"
  using C8_frame_write_decodes [of "[0x01, 0x03, 0x01, 0x10, 0x20]" initialSim]
  by (simp add: Let_def)

section \<open>Requested state, the GHC gate and the timers\<close>

lemma write_frame:
  "ghcStatus (handleCharacteristicWrite c v s) = ghcStatus s"
  "phaseTimer (handleCharacteristicWrite c v s) = phaseTimer s"
  "shotTimer (handleCharacteristicWrite c v s) = shotTimer s"
  "socketConnected (handleCharacteristicWrite c v s) = socketConnected s"
  by (simp_all add: write_defs Let_def case_prod_beta)

lemma event_frame:
  "ghcStatus (handlePiEvent ev s) = ghcStatus s"
  "phaseTimer (handlePiEvent ev s) = phaseTimer s"
  "shotTimer (handlePiEvent ev s) = shotTimer s"
  "socketConnected (handlePiEvent ev s) = socketConnected s"
  by (cases ev; simp add: write_frame; simp add: write_defs sendWaterLevel_def Let_def)+

lemma requested_state_passes:
  assumes "1 \<le> length v" and "ghcStatus s \<noteq> 3 \<or> v ! 0 = Sleep \<or> v ! 0 = Idle"
  shows "currentState (handleCharacteristicWrite CHAR_REQUESTED_STATE v s) = v ! 0"
    and "currentSubState (handleCharacteristicWrite CHAR_REQUESTED_STATE v s) = Ready"
    and "outbox (handleCharacteristicWrite CHAR_REQUESTED_STATE v s) =
           (if socketConnected s then outbox s @ [Notify CHAR_STATE_INFO [v ! 0, Ready]]
            else outbox s)"
  using assms by (auto simp add: write_defs Let_def numeral_eq_Suc)

lemma logMsg_only_log:
  "logMsg category msg s = s\<lparr>logView := logView (logMsg category msg s)\<rparr>"
  by (simp add: logMsg_def Let_def)

lemma logMsg_last:
  "last (logView (logMsg category msg s)) = (category, msg)"
  by (simp add: logMsg_def lastLines_def last_drop)

lemma requested_state_blocked:
  assumes "ghcStatus s = 3" and "1 \<le> length v" and "v ! 0 \<noteq> Sleep" and "v ! 0 \<noteq> Idle"
  shows "handleCharacteristicWrite CHAR_REQUESTED_STATE v s
          = logMsg ''WARN'' (GhcBlocked (v ! 0)) (logRx (RequestedStateMsg (v ! 0)) s)"
  using assms
  by (simp add: handleCharacteristicWrite_def handleRequestedState_def logRx_def logMsg_def
      Let_def)

lemma requested_state_blocked_effect:
  assumes "ghcStatus s = 3" and "1 \<le> length v" and "v ! 0 \<noteq> Sleep" and "v ! 0 \<noteq> Idle"
  shows "handleCharacteristicWrite CHAR_REQUESTED_STATE v s
          = s\<lparr>logView := logView (handleCharacteristicWrite CHAR_REQUESTED_STATE v s)\<rparr>"
    and "last (logView (handleCharacteristicWrite CHAR_REQUESTED_STATE v s))
          = (''WARN'', GhcBlocked (v ! 0))"
proof -
  note eq = requested_state_blocked [OF assms]
  show "handleCharacteristicWrite CHAR_REQUESTED_STATE v s
          = s\<lparr>logView := logView (handleCharacteristicWrite CHAR_REQUESTED_STATE v s)\<rparr>"
    unfolding eq by (simp add: logRx_def logMsg_def Let_def)
  show "last (logView (handleCharacteristicWrite CHAR_REQUESTED_STATE v s))
          = (''WARN'', GhcBlocked (v ! 0))"
    unfolding eq by (rule logMsg_last)
qed

lemma write_state_gated:
  assumes "ghcStatus s = 3"
  shows "currentState (handleCharacteristicWrite c v s) = currentState s
         \<or> currentState (handleCharacteristicWrite c v s) = Sleep
         \<or> currentState (handleCharacteristicWrite c v s) = Idle"
  using assms by (simp add: write_defs Let_def case_prod_beta)

lemma event_state_gated:
  assumes "ghcStatus s = 3"
  shows "currentState (handlePiEvent ev s) \<in> {currentState s, Sleep, Idle}"
  using assms write_state_gated [of s]
  by (cases ev) (auto simp add: write_defs sendWaterLevel_def Let_def)

lemma events_state_gated:
  assumes "ghcStatus s = 3"
  shows "currentState (handlePiEvents evs s) \<in> {currentState s, Sleep, Idle}"
  using assms
proof (induction evs arbitrary: s)
  case Nil
  then show ?case by simp
next
  case (Cons ev evs)
  have g: "ghcStatus (handlePiEvent ev s) = 3"
    using Cons.prems by (simp add: event_frame)
  from Cons.IH [OF g] event_state_gated [OF Cons.prems, of ev]
  show ?case by auto
qed

text \<open>
  The operator's buttons call \<^verbatim>\<open>startOperation\<close>, which does not read the GHC mode:
  from Idle the Espresso button starts the run in every mode, 3 included. The gate is on
  the REQUESTED_STATE writes only.
\<close>

lemma operator_start_not_gated:
  assumes "currentState s = Idle"
  shows "currentState (onEspressoClicked s) = Espresso"
    and "currentSubState (onEspressoClicked s) = Heating"
  using assms
  by (simp_all add: onEspressoClicked_def startOperation_def transitionToState_def
      sendStateNotification_def sendNotification_def sendCommand_def logTx_def logMsg_def
      Let_def)

text \<open>
  Claim C1, as amended. A REQUESTED_STATE write whose first byte is \<open>0x04\<close> (Espresso),
  arriving while the state is Idle, the GHC mode is 0 and the control socket is connected,
  makes the engine write exactly one STATE_INFO notification, with payload \<open>04 00\<close>: the
  state becomes Espresso and the substate Ready.
\<close>

theorem C1_requested_espresso_is_ready:
  assumes "currentState s = Idle" and "ghcStatus s = 0" and "socketConnected s"
  shows "let s' = handleCharacteristicWrite CHAR_REQUESTED_STATE (0x04 # rest) s
         in outbox s' = outbox s @ [Notify CHAR_STATE_INFO [0x04, 0x00]]
            \<and> currentState s' = Espresso \<and> currentSubState s' = Ready"
  using assms requested_state_passes [of "0x04 # rest" s] by (simp add: Let_def)

theorem C1_requested_espresso_witness:
  "outbox (handleCharacteristicWrite CHAR_REQUESTED_STATE [0x04]
             (initialSim\<lparr>socketConnected := True, ghcStatus := 0\<rparr>))
     = outbox (initialSim\<lparr>socketConnected := True, ghcStatus := 0\<rparr>)
       @ [Notify CHAR_STATE_INFO [0x04, 0x00]]"
  using C1_requested_espresso_is_ready
          [of "initialSim\<lparr>socketConnected := True, ghcStatus := 0\<rparr>" "[]"]
  by (simp add: initialSim_def Let_def)

text \<open>
  The claim as the specification states it expects the payload \<open>04 01\<close>
  (Espresso, Heating). At the initial window with the socket connected and GHC mode 0 the
  write of \<open>04\<close> sends \<open>04 00\<close> and leaves the substate at Ready, not Heating.
\<close>

theorem C1_requested_espresso_counterexample:
  "outbox (handleCharacteristicWrite CHAR_REQUESTED_STATE [0x04]
             (initialSim\<lparr>socketConnected := True, ghcStatus := 0\<rparr>))
     = [Notify CHAR_STATE_INFO [0x04, 0x00]]
   \<and> currentSubState (handleCharacteristicWrite CHAR_REQUESTED_STATE [0x04]
             (initialSim\<lparr>socketConnected := True, ghcStatus := 0\<rparr>)) \<noteq> Heating"
  by (simp add: write_defs initialSim_def numeral_eq_Suc)

text \<open>
  Claim C4, as amended. While the GHC mode is 3, no state asked for by a REQUESTED_STATE
  write, other than Sleep or Idle, becomes the current state: whatever events arrive on
  the control channel, the current state is the one it was, Sleep or Idle, and a
  REQUESTED_STATE write for any other state changes nothing but the log, whose last line
  is then the WARN line of the blocked request; so the state and the substate stand and
  no STATE_INFO is sent. In every other GHC mode the write passes: the requested state
  becomes the current one, with substate Ready.
\<close>

theorem C4_ghc_gate:
  "(ghcStatus s = 3 \<longrightarrow>
      currentState (handlePiEvents evs s) \<in> {currentState s, Sleep, Idle})
   \<and> (ghcStatus s = 3 \<and> 1 \<le> length v \<and> v ! 0 \<noteq> Sleep \<and> v ! 0 \<noteq> Idle \<longrightarrow>
        (let s' = handleCharacteristicWrite CHAR_REQUESTED_STATE v s
         in s' = s\<lparr>logView := logView s'\<rparr>
            \<and> last (logView s') = (''WARN'', GhcBlocked (v ! 0))))
   \<and> (ghcStatus s \<noteq> 3 \<and> 1 \<le> length v \<longrightarrow>
        (let s' = handleCharacteristicWrite CHAR_REQUESTED_STATE v s
         in currentState s' = v ! 0 \<and> currentSubState s' = Ready))"
  using events_state_gated [of s evs] requested_state_blocked_effect [of s v]
    requested_state_passes(1,2) [of v s]
  unfolding Let_def by blast

theorem C4_ghc_gate_witness:
  "currentState (handlePiEvents [EvWrite CHAR_REQUESTED_STATE [0x04], EvRead CHAR_STATE_INFO,
       EvWrite CHAR_REQUESTED_STATE [0x05]] initialSim) \<in> {currentState initialSim, Sleep, Idle}
   \<and> handleCharacteristicWrite CHAR_REQUESTED_STATE [0x04] initialSim
       = initialSim\<lparr>logView :=
           logView (handleCharacteristicWrite CHAR_REQUESTED_STATE [0x04] initialSim)\<rparr>
   \<and> last (logView (handleCharacteristicWrite CHAR_REQUESTED_STATE [0x04] initialSim))
       = (''WARN'', GhcBlocked 0x04)
   \<and> currentState (handleCharacteristicWrite CHAR_REQUESTED_STATE [0x04]
                      (initialSim\<lparr>ghcStatus := 0\<rparr>)) = Espresso"
proof -
  have g3: "ghcStatus initialSim = 3"
    by (simp add: initialSim_def)
  have v: "1 \<le> length [0x04 :: u8]" "[0x04 :: u8] ! 0 \<noteq> Sleep" "[0x04 :: u8] ! 0 \<noteq> Idle"
    by simp_all
  have g0: "ghcStatus (initialSim\<lparr>ghcStatus := 0\<rparr>) \<noteq> 3"
    by simp
  have a: "currentState (handlePiEvents [EvWrite CHAR_REQUESTED_STATE [0x04],
       EvRead CHAR_STATE_INFO, EvWrite CHAR_REQUESTED_STATE [0x05]] initialSim)
         \<in> {currentState initialSim, Sleep, Idle}"
    using C4_ghc_gate [of initialSim _ "[]"] g3 by blast
  have b: "handleCharacteristicWrite CHAR_REQUESTED_STATE [0x04] initialSim
       = initialSim\<lparr>logView :=
           logView (handleCharacteristicWrite CHAR_REQUESTED_STATE [0x04] initialSim)\<rparr>
     \<and> last (logView (handleCharacteristicWrite CHAR_REQUESTED_STATE [0x04] initialSim))
       = (''WARN'', GhcBlocked ([0x04] ! 0))"
    using C4_ghc_gate [of initialSim "[]" "[0x04]", unfolded Let_def] g3 v(1,2,3) by blast
  have c: "currentState (handleCharacteristicWrite CHAR_REQUESTED_STATE [0x04]
                      (initialSim\<lparr>ghcStatus := 0\<rparr>)) = [0x04] ! 0"
    using C4_ghc_gate [of "initialSim\<lparr>ghcStatus := 0\<rparr>" "[]" "[0x04]", unfolded Let_def]
      g0 v(1) by blast
  from a b [THEN conjunct1] b [THEN conjunct2, unfolded nth_Cons_0] c [unfolded nth_Cons_0]
  show ?thesis
    by (intro conjI)
qed

text \<open>
  The claim as the specification states it counts the operator's start commands among the
  gated requests. With GHC mode 3, the socket connected and the state Idle, the Espresso
  button makes Espresso the current state, with substate Heating.
\<close>

theorem C4_ghc_gate_counterexample:
  "ghcStatus (initialSim\<lparr>socketConnected := True\<rparr>) = 3
   \<and> currentState (initialSim\<lparr>socketConnected := True\<rparr>) = Idle
   \<and> currentState (onEspressoClicked (initialSim\<lparr>socketConnected := True\<rparr>)) = Espresso
   \<and> currentSubState (onEspressoClicked (initialSim\<lparr>socketConnected := True\<rparr>)) = Heating"
  by (simp add: onEspressoClicked_def startOperation_def transitionToState_def
      sendStateNotification_def sendNotification_def sendCommand_def logTx_def logMsg_def
      initialSim_def Let_def)

text \<open>
  Claim C10. A REQUESTED_STATE write that passes the GHC gate (the mode is not 3, or the
  requested state is Sleep or Idle) makes the requested state current with substate Ready,
  and leaves the phase timer and the shot-sample timer as they were; no event of the
  control channel starts or stops either timer.
\<close>

theorem C10_requested_state_ready_no_timers:
  "(1 \<le> length v \<and> (ghcStatus s \<noteq> 3 \<or> v ! 0 = Sleep \<or> v ! 0 = Idle) \<longrightarrow>
      (let s' = handleCharacteristicWrite CHAR_REQUESTED_STATE v s
       in currentState s' = v ! 0 \<and> currentSubState s' = Ready
          \<and> phaseTimer s' = phaseTimer s \<and> shotTimer s' = shotTimer s))
   \<and> phaseTimer (handlePiEvent ev s) = phaseTimer s
   \<and> shotTimer (handlePiEvent ev s) = shotTimer s"
  using requested_state_passes(1,2) [of v s]
  by (simp add: Let_def write_frame event_frame)

theorem C10_requested_state_witness:
  "(let s' = handleCharacteristicWrite CHAR_REQUESTED_STATE [0x05]
               (initialSim\<lparr>ghcStatus := 1\<rparr>)
    in currentState s' = Steam \<and> currentSubState s' = Ready
       \<and> phaseTimer s' = None \<and> shotTimer s' = False)"
  using C10_requested_state_ready_no_timers [of "[0x05]" "initialSim\<lparr>ghcStatus := 1\<rparr>"]
  by (simp add: initialSim_def Let_def)

section \<open>The MMR responder\<close>

lemma replicate8: "replicate 8 (0::u8) = [0, 0, 0, 0, 0, 0, 0, 0]"
  by (simp add: numeral_eq_Suc)

lemma ucast_mask8: "(ucast (w AND 0xFF :: u32) :: u8) = ucast w"
proof -
  have "(0xFF :: u32) = mask 8"
    by (simp add: mask_eq_exp_minus_1)
  then have "w AND 0xFF = take_bit 8 w"
    by (simp only: take_bit_eq_mask)
  then show ?thesis
    by (simp only:) (rule bit_word_eqI, simp add: bit_simps)
qed

lemma encodeUint32BE_response:
  "encodeUint32BE a (replicate 8 0) = specBE32 a @ [0, 0, 0, 0]"
  by (simp add: encodeUint32BE_def replicate8 specBE32_def ucast_mask8)

lemma response_update:
  "(specBE32 a @ [b4, b5, b6, b7])[4 := x] = specBE32 a @ [x, b5, b6, b7]"
  "(specBE32 a @ [b4, b5, b6, b7])[5 := x] = specBE32 a @ [b4, x, b6, b7]"
  "(specBE32 a @ [b4, b5, b6, b7])[6 := x] = specBE32 a @ [b4, b5, x, b7]"
  "(specBE32 a @ [b4, b5, b6, b7])[7 := x] = specBE32 a @ [b4, b5, b6, x]"
  by (simp_all add: specBE32_def)

lemma specLE32_small:
  "specLE32 0 = [0, 0, 0, 0]" "specLE32 1 = [1, 0, 0, 0]" "specLE32 2 = [2, 0, 0, 0]"
  "specLE32 3 = [3, 0, 0, 0]" "specLE32 4 = [4, 0, 0, 0]"
  by (simp_all add: specLE32_def drop_bit_eq_div)

lemma ghc_mode_cases:
  assumes "0 \<le> (g::int)" and "g \<le> 4"
  shows "g = 0 \<or> g = 1 \<or> g = 2 \<or> g = 3 \<or> g = 4"
  using assms by arith

text \<open>
  Claim C2, as amended. For every read-from-MMR request of at least 4 bytes, while the
  control socket is connected and the GHC mode is one of 0..4, the responder writes exactly
  one notification on READ_FROM_MMR, of 8 bytes: the address of bytes \<open>[1..4)\<close> as a
  big-endian 32-bit value, then the canned value, little-endian. The canned value is the
  GHC mode at address \<open>0x80381C\<close>, 1 at \<open>0x803854\<close>, 2 at \<open>0x80000C\<close>, 1 at
  \<open>0x800010\<close> and 0 at every other address, \<open>0x803820\<close> among them.
\<close>

theorem C2_mmr_read_response:
  assumes "4 \<le> length v" and "socketConnected s"
    and "0 \<le> ghcStatus s" and "ghcStatus s \<le> 4"
  shows "outbox (handleCharacteristicWrite CHAR_READ_FROM_MMR v s)
         = outbox s @ [Notify CHAR_READ_FROM_MMR
             (specBE32 (decodeAddress (drop 1 v))
              @ specLE32 (specCannedValue (ghcStatus s) (decodeAddress (drop 1 v))))]
         \<and> specCannedValue (ghcStatus s) 0x80381C = word_of_int (ghcStatus s)
         \<and> specCannedValue (ghcStatus s) 0x803820 = 0"
proof -
  have g: "specLE32 (word_of_int (ghcStatus s)) = [word_of_int (ghcStatus s), 0, 0, 0]"
    using ghc_mode_cases [OF assms(3,4)] by (auto simp add: specLE32_small)
  have "outbox (handleCharacteristicWrite CHAR_READ_FROM_MMR v s)
         = outbox s @ [Notify CHAR_READ_FROM_MMR
             (specBE32 (decodeAddress (drop 1 v))
              @ specLE32 (specCannedValue (ghcStatus s) (decodeAddress (drop 1 v))))]"
    using assms(1,2)
    by (simp add: write_defs Let_def encodeUint32BE_response specCannedValue_def g
        specLE32_small response_update)
  then show ?thesis
    by (simp add: specCannedValue_def)
qed

theorem C2_mmr_read_witness:
  "outbox (handleCharacteristicWrite CHAR_READ_FROM_MMR [0x00, 0x80, 0x38, 0x1C]
             (initialSim\<lparr>socketConnected := True\<rparr>))
     = [Notify CHAR_READ_FROM_MMR [0x00, 0x80, 0x38, 0x1C, 0x03, 0x00, 0x00, 0x00]]"
proof -
  have a: "decodeAddress [0x80, 0x38, 0x1C] = 0x80381C"
    by (simp add: decodeAddress_def)
  show ?thesis
    using C2_mmr_read_response [of "[0x00, 0x80, 0x38, 0x1C]"
            "initialSim\<lparr>socketConnected := True\<rparr>"]
    by (simp add: initialSim_def a specBE32_def specLE32_small specCannedValue_def
        drop_bit_eq_div)
qed

text \<open>
  The claim as the specification states it puts the GHC mode at address \<open>0x803820\<close>.
  With GHC mode 3 and the socket connected, a read of \<open>80 38 20\<close> is answered with the
  value 0.
\<close>

theorem C2_mmr_read_counterexample:
  "ghcStatus (initialSim\<lparr>socketConnected := True\<rparr>) = 3
   \<and> outbox (handleCharacteristicWrite CHAR_READ_FROM_MMR [0x00, 0x80, 0x38, 0x20]
               (initialSim\<lparr>socketConnected := True\<rparr>))
       = [Notify CHAR_READ_FROM_MMR [0x00, 0x80, 0x38, 0x20, 0x00, 0x00, 0x00, 0x00]]"
  by (simp add: write_defs decodeAddress_def initialSim_def encodeUint32BE_def replicate8
      Let_def)

section \<open>The Espresso phase ladder\<close>

lemmas op_defs =
  startOperation_def stopOperation_def onPhaseTimeout_def phaseTimerExpires_def
  transitionToState_def sendStateNotification_def sendNotification_def sendCommand_def
  logTx_def logMsg_def

lemma phaseRun_inactive:
  assumes "phaseTimer s = None"
  shows "phaseRun n s = []"
  using assms by (cases n) simp_all

lemma start_espresso:
  assumes "currentState s = Idle \<or> currentState s = Sleep"
  shows "currentState (startOperation Espresso s) = Espresso"
    and "currentSubState (startOperation Espresso s) = Heating"
    and "phaseTimer (startOperation Espresso s) = Some 2000"
  using assms by (auto simp add: op_defs Let_def)

lemma expiry_in_heating:
  assumes "currentState s = Espresso" and "currentSubState s = Heating"
    and "phaseTimer s = Some ms"
  shows "currentState (phaseTimerExpires s) = Espresso"
    and "currentSubState (phaseTimerExpires s) = Preinfusion"
    and "phaseTimer (phaseTimerExpires s) = Some 5000"
  using assms by (simp_all add: op_defs Let_def)

lemma expiry_in_preinfusion:
  assumes "currentState s = Espresso" and "currentSubState s = Preinfusion"
    and "phaseTimer s = Some ms"
  shows "currentState (phaseTimerExpires s) = Espresso"
    and "currentSubState (phaseTimerExpires s) = Pouring"
    and "phaseTimer (phaseTimerExpires s) = Some 25000"
  using assms by (simp_all add: op_defs Let_def)

lemma expiry_in_pouring:
  assumes "currentState s = Espresso" and "currentSubState s = Pouring"
    and "phaseTimer s = Some ms"
  shows "currentState (phaseTimerExpires s) = Espresso"
    and "currentSubState (phaseTimerExpires s) = Ending"
    and "phaseTimer (phaseTimerExpires s) = Some 2000"
  using assms by (simp_all add: op_defs Let_def)

lemma expiry_in_ending:
  assumes "currentState s = Espresso" and "currentSubState s = Ending"
    and "phaseTimer s = Some ms"
  shows "currentState (phaseTimerExpires s) = Idle"
    and "currentSubState (phaseTimerExpires s) = Ready"
    and "phaseTimer (phaseTimerExpires s) = None"
  using assms by (simp_all add: op_defs Let_def)

lemma espresso_run:
  assumes "currentState s = Idle \<or> currentState s = Sleep"
  shows "phaseRun (4 + m) (startOperation Espresso s)
         = [(Espresso, Preinfusion, Some 5000), (Espresso, Pouring, Some 25000),
            (Espresso, Ending, Some 2000), (Idle, Ready, None)]"
proof -
  define s0 where "s0 = startOperation Espresso s"
  define s1 where "s1 = phaseTimerExpires s0"
  define s2 where "s2 = phaseTimerExpires s1"
  define s3 where "s3 = phaseTimerExpires s2"
  define s4 where "s4 = phaseTimerExpires s3"
  note a0 = start_espresso [OF assms, folded s0_def]
  note a1 = expiry_in_heating [OF a0, folded s1_def]
  note a2 = expiry_in_preinfusion [OF a1, folded s2_def]
  note a3 = expiry_in_pouring [OF a2, folded s3_def]
  note a4 = expiry_in_ending [OF a3, folded s4_def]
  have "4 + m = Suc (Suc (Suc (Suc m)))"
    by simp
  then show ?thesis
    unfolding s0_def [symmetric]
    by (simp only: phaseRun.simps a0 a1 a2 a3 a4 option.case Let_def
        s1_def [symmetric] s2_def [symmetric] s3_def [symmetric] s4_def [symmetric]
        phaseRun_inactive [OF a4(3)])
qed

text \<open>
  Claim C5. A start of Espresso that is honoured (the state is Idle or Sleep) enters
  (Espresso, Heating) with the phase timer at 2000 ms; the expiries of the phase timer
  then give Preinfusion with 5000 ms, Pouring with 25000 ms, Ending with 2000 ms, and
  (Idle, Ready) with the timer stopped, in this order, each once, and the run ends there:
  any number of expiries from four on gives this same run.
\<close>

theorem C5_espresso_ladder:
  assumes "currentState s = Idle \<or> currentState s = Sleep"
  shows "(let s0 = startOperation Espresso s
          in (currentState s0, currentSubState s0, phaseTimer s0)
               = (Espresso, Heating, Some 2000)
             \<and> (\<forall>n \<ge> 4. phaseRun n s0
                   = [(Espresso, Preinfusion, Some 5000), (Espresso, Pouring, Some 25000),
                      (Espresso, Ending, Some 2000), (Idle, Ready, None)]))"
proof -
  have "phaseRun n (startOperation Espresso s)
          = [(Espresso, Preinfusion, Some 5000), (Espresso, Pouring, Some 25000),
             (Espresso, Ending, Some 2000), (Idle, Ready, None)]" if "4 \<le> n" for n
  proof -
    from that obtain m where "n = 4 + m"
      using le_Suc_ex by blast
    then show ?thesis
      using espresso_run [OF assms, of m] by simp
  qed
  then show ?thesis
    using start_espresso [OF assms] by (simp add: Let_def)
qed

theorem C5_espresso_ladder_witness:
  "phaseRun 4 (startOperation Espresso initialSim)
     = [(Espresso, Preinfusion, Some 5000), (Espresso, Pouring, Some 25000),
        (Espresso, Ending, Some 2000), (Idle, Ready, None)]
   \<and> currentSubState (startOperation Espresso initialSim) = Heating"
proof -
  have h: "currentState initialSim = Idle \<or> currentState initialSim = Sleep"
    by (simp add: initialSim_def)
  show ?thesis
    using C5_espresso_ladder [OF h] by (simp add: Let_def)
qed

section \<open>The profile assembler: a whole upload\<close>

lemma frame_write_length:
  "length (profileFrames (handleFrameWrite v s)) = length (profileFrames s)"
  by (simp add: handleFrameWrite_def logRx_def logMsg_def Let_def)

lemma frame_write_header:
  "profileHeader (handleFrameWrite v s) = profileHeader s"
  by (simp add: handleFrameWrite_def logRx_def logMsg_def Let_def)

lemma frame_write_keeps:
  assumes "i < length (profileFrames s)" and "frameIndex (profileFrames s ! i) = int i"
  shows "frameIndex (profileFrames (handleFrameWrite v s) ! i) = int i"
proof (cases "i = unat (v ! 0)")
  case True
  show ?thesis
    using assms unfolding True
    by (auto simp add: handleFrameWrite_def logRx_def logMsg_def Let_def nth_list_update)
next
  case False
  with assms show ?thesis
    by (auto simp add: handleFrameWrite_def logRx_def logMsg_def Let_def nth_list_update)
qed

lemma frame_write_sets:
  assumes "8 \<le> length v" and "unat (v ! 0) < length (profileFrames s)"
    and "unat (numFrames (profileHeader s)) = length (profileFrames s)"
    and "length (profileFrames s) \<le> 32"
  shows "frameIndex (profileFrames (handleFrameWrite v s) ! unat (v ! 0)) = int (unat (v ! 0))"
proof -
  have lt: "\<not> 32 \<le> v ! 0"
  proof
    assume "32 \<le> v ! 0"
    then have "unat (32 :: u8) \<le> unat (v ! 0)"
      by (rule word_le_nat_alt [THEN iffD1])
    moreover have "unat (32 :: u8) = 32"
      by simp
    ultimately have "32 \<le> unat (v ! 0)"
      by (simp only:)
    then show False
      using assms(2,4) by linarith
  qed
  have ne: "v ! 0 \<noteq> numFrames (profileHeader s)"
    using assms(2,3) by auto
  have ui: "uint (v ! 0) < int (length (profileFrames s))"
  proof -
    have "uint (v ! 0) = int (unat (v ! 0))"
      by (rule uint_nat)
    then show ?thesis
      using assms(2) by linarith
  qed
  have l8: "\<not> length v < 8"
    using assms(1) by simp
  show ?thesis
    using assms(2)
    by (simp add: handleFrameWrite_def logRx_def logMsg_def Let_def lt ne ui l8)
qed

lemma frames_assembled:
  assumes "\<forall>v \<in> set ws. 8 \<le> length v \<and> unat (v ! 0) < length (profileFrames s)"
    and "unat (numFrames (profileHeader s)) = length (profileFrames s)"
    and "length (profileFrames s) \<le> 32"
  shows "length (profileFrames (handlePiEvents (map (EvWrite CHAR_FRAME_WRITE) ws) s))
           = length (profileFrames s)
         \<and> (\<forall>i < length (profileFrames s).
               frameIndex (profileFrames s ! i) = int i
                 \<or> i \<in> (\<lambda>v. unat (v ! 0)) ` set ws \<longrightarrow>
               frameIndex
                 (profileFrames (handlePiEvents (map (EvWrite CHAR_FRAME_WRITE) ws) s) ! i)
                 = int i)"
  using assms
proof (induction ws arbitrary: s)
  case Nil
  then show ?case by simp
next
  case (Cons v ws)
  define s' where "s' = handleFrameWrite v s"
  have step: "handlePiEvents (map (EvWrite CHAR_FRAME_WRITE) (v # ws)) s
                = handlePiEvents (map (EvWrite CHAR_FRAME_WRITE) ws) s'"
    by (simp add: s'_def handleCharacteristicWrite_def)
  have len: "length (profileFrames s') = length (profileFrames s)"
    by (simp add: s'_def frame_write_length)
  have hdr: "profileHeader s' = profileHeader s"
    by (simp add: s'_def frame_write_header)
  have p1: "\<forall>v \<in> set ws. 8 \<le> length v \<and> unat (v ! 0) < length (profileFrames s')"
    using Cons.prems(1) by (simp add: len)
  note IH = Cons.IH [OF p1, unfolded len hdr, OF Cons.prems(2,3)]
  have v8: "8 \<le> length v" and vlt: "unat (v ! 0) < length (profileFrames s)"
    using Cons.prems(1) by simp_all
  show ?case
    unfolding step
  proof (intro conjI allI impI)
    show "length (profileFrames (handlePiEvents (map (EvWrite CHAR_FRAME_WRITE) ws) s'))
            = length (profileFrames s)"
      using IH by simp
  next
    fix i
    assume i: "i < length (profileFrames s)"
      and h: "frameIndex (profileFrames s ! i) = int i
                \<or> i \<in> (\<lambda>v. unat (v ! 0)) ` set (v # ws)"
    have "frameIndex (profileFrames s' ! i) = int i \<or> i \<in> (\<lambda>v. unat (v ! 0)) ` set ws"
    proof -
      consider "frameIndex (profileFrames s ! i) = int i" | "i = unat (v ! 0)"
        | "i \<in> (\<lambda>v. unat (v ! 0)) ` set ws"
        using h by auto
      then show ?thesis
      proof cases
        case 1
        then show ?thesis
          using frame_write_keeps [OF i] by (simp add: s'_def)
      next
        case 2
        then show ?thesis
          using frame_write_sets [OF v8 vlt Cons.prems(2,3)] by (simp add: s'_def)
      next
        case 3
        then show ?thesis by simp
      qed
    qed
    then show "frameIndex
                 (profileFrames (handlePiEvents (map (EvWrite CHAR_FRAME_WRITE) ws) s') ! i)
                 = int i"
      using IH i by blast
  qed
qed

lemma header_frames:
  assumes "5 \<le> length h"
  shows "profileFrames (handleHeaderWrite h s) = replicate (unat (h ! 1)) defaultFrame"
    and "numFrames (profileHeader (handleHeaderWrite h s)) = h ! 1"
  using assms by (simp_all add: handleHeaderWrite_def logRx_def logMsg_def Let_def)

text \<open>
  Claim C6, as amended. For every header write declaring \<open>N \<le> 32\<close> frames, followed by
  \<open>N\<close> frame writes of at least 8 bytes whose wire indices cover \<open>0..N-1\<close> in any order,
  the assembled profile has exactly \<open>N\<close> frames and frame \<open>i\<close> has \<open>frameIndex = i\<close>,
  for every \<open>i\<close> below \<open>N\<close>.
\<close>

theorem C6_profile_assembled:
  assumes "5 \<le> length h" and "unat (h ! 1) = N" and "N \<le> 32"
    and "length ws = N"
    and "\<forall>v \<in> set ws. 8 \<le> length v"
    and "(\<lambda>v. unat (v ! 0)) ` set ws = {0..<N}"
  shows "(let s' = handlePiEvents
                     (EvWrite CHAR_HEADER_WRITE h # map (EvWrite CHAR_FRAME_WRITE) ws) s
          in length (profileFrames s') = N
             \<and> (\<forall>i < N. frameIndex (profileFrames s' ! i) = int i))"
proof -
  define s0 where "s0 = handleHeaderWrite h s"
  have len: "length (profileFrames s0) = N"
    using header_frames(1) [OF assms(1)] assms(2) by (simp add: s0_def)
  have nf: "unat (numFrames (profileHeader s0)) = length (profileFrames s0)"
    using header_frames(2) [OF assms(1)] assms(2) len by (simp add: s0_def)
  have ws: "\<forall>v \<in> set ws. 8 \<le> length v \<and> unat (v ! 0) < length (profileFrames s0)"
    using assms(5,6) len by auto
  have le: "length (profileFrames s0) \<le> 32"
    using len assms(3) by simp
  have step:
    "handlePiEvents (EvWrite CHAR_HEADER_WRITE h # map (EvWrite CHAR_FRAME_WRITE) ws) s
       = handlePiEvents (map (EvWrite CHAR_FRAME_WRITE) ws) s0"
    by (simp add: s0_def handleCharacteristicWrite_def)
  show ?thesis
    using frames_assembled [OF ws nf le] assms(6)
    unfolding step Let_def len by auto
qed

theorem C6_profile_assembled_witness:
  "(let s' = handlePiEvents
               [EvWrite CHAR_HEADER_WRITE [0x01, 0x02, 0x01, 0x10, 0x20],
                EvWrite CHAR_FRAME_WRITE [0x01, 0x00, 0x90, 0xB4, 0x1E, 0x00, 0x00, 0x00],
                EvWrite CHAR_FRAME_WRITE [0x00, 0x01, 0x40, 0xBE, 0x32, 0x00, 0x00, 0x64]]
               initialSim
    in length (profileFrames s') = 2
       \<and> frameIndex (profileFrames s' ! 0) = 0 \<and> frameIndex (profileFrames s' ! 1) = 1)"
proof -
  let ?h = "[0x01, 0x02, 0x01, 0x10, 0x20] :: bytes"
  let ?ws = "[[0x01, 0x00, 0x90, 0xB4, 0x1E, 0x00, 0x00, 0x00],
              [0x00, 0x01, 0x40, 0xBE, 0x32, 0x00, 0x00, 0x64]] :: bytes list"
  have h1: "5 \<le> length ?h"
    by simp
  have h2: "unat (?h ! 1) = 2"
    by simp
  have h3: "(2::nat) \<le> 32"
    by simp
  have h4: "length ?ws = 2"
    by simp
  have h5: "\<forall>v \<in> set ?ws. 8 \<le> length v"
    by simp
  have h6: "(\<lambda>v. unat (v ! 0)) ` set ?ws = {0..<2}"
    by auto
  note r = C6_profile_assembled [OF h1 h2 h3 h4 h5 h6, of initialSim, unfolded Let_def]
  from r have len: "length (profileFrames (handlePiEvents
      (EvWrite CHAR_HEADER_WRITE ?h # map (EvWrite CHAR_FRAME_WRITE) ?ws) initialSim)) = 2"
    by (rule conjunct1)
  from r have idx: "i < 2 \<Longrightarrow> frameIndex (profileFrames (handlePiEvents
      (EvWrite CHAR_HEADER_WRITE ?h # map (EvWrite CHAR_FRAME_WRITE) ?ws) initialSim) ! i)
      = int i" for i
    by blast
  from len idx [of 0] idx [of 1] show ?thesis
    by (simp add: Let_def)
qed

text \<open>
  The claim as the specification states it holds for every \<open>N\<close>. A wire index of 32 or
  more is an extension write, whatever the header declared: after a header declaring 33
  frames and the frame writes with indices 0 to 32 in order, the write with index 32 has
  marked frame 0 as extended and frame 32 still has \<open>frameIndex = 0\<close>.
\<close>

theorem C6_profile_assembled_counterexample:
  "length (profileFrames (handlePiEvents (ascendingUpload 33) initialSim)) = 33
   \<and> frameIndex (profileFrames (handlePiEvents (ascendingUpload 33) initialSim) ! 32) = 0
   \<and> hasExtension (profileFrames (handlePiEvents (ascendingUpload 33) initialSim) ! 0)"
  by code_simp

section \<open>Short payloads and malformed lines\<close>

lemma indexOf_append:
  assumes "c \<notin> set line"
  shows "indexOf (line @ c # rest) c = Some (length line)"
  using assms by (induction line) auto

lemma indexOf_none:
  assumes "c \<notin> set buf"
  shows "indexOf buf c = None"
  using assms by (induction buf) auto

text \<open>
  The loop of \<^verbatim>\<open>onDataReceived\<close>, one line at a time: a buffer with no line feed is
  kept for later; an empty line is skipped; a line that does not parse is logged and the
  loop goes on with the rest of the buffer; a line that parses is handled, and the loop
  goes on with the rest.
\<close>

lemma processLines_incomplete:
  assumes "0x0A \<notin> set buf"
  shows "processLines parse buf s = s\<lparr>tcpBuffer := buf\<rparr>"
  using assms by (simp add: processLines.simps [of parse buf] indexOf_none)

lemma processLines_empty_line:
  "processLines parse (0x0A # rest) s = processLines parse rest (s\<lparr>tcpBuffer := rest\<rparr>)"
  by (simp add: processLines.simps [of parse "0x0A # rest"])

lemma processLines_malformed_line:
  assumes "line \<noteq> []" and "0x0A \<notin> set line" and "parse line = None"
  shows "processLines parse (line @ 0x0A # rest) s
         = processLines parse rest (logMsg ''ERROR'' JsonParseError (s\<lparr>tcpBuffer := rest\<rparr>))"
  using assms
  by (simp add: processLines.simps [of parse "line @ 0x0A # rest"] indexOf_append Let_def)

lemma processLines_parsed_line:
  assumes "line \<noteq> []" and "0x0A \<notin> set line" and "parse line = Some ev"
  shows "processLines parse (line @ 0x0A # rest) s
         = processLines parse rest (handlePiEvent ev (s\<lparr>tcpBuffer := rest\<rparr>))"
  using assms
  by (simp add: processLines.simps [of parse "line @ 0x0A # rest"] indexOf_append Let_def)

lemma short_payload_silent:
  "length v < 1 \<Longrightarrow> handleCharacteristicWrite CHAR_REQUESTED_STATE v s = s"
  "length v < 4 \<Longrightarrow> handleCharacteristicWrite CHAR_READ_FROM_MMR v s = s"
  "length v < 8 \<Longrightarrow> handleCharacteristicWrite CHAR_WRITE_TO_MMR v s = s"
  by (simp_all add: write_defs)

lemma short_payload_logged:
  "length v < 5 \<Longrightarrow> handleCharacteristicWrite CHAR_HEADER_WRITE v s
      = logRx (HeaderInvalidSize (length v)) s"
  "length v < 8 \<Longrightarrow> handleCharacteristicWrite CHAR_FRAME_WRITE v s
      = logRx (FrameInvalidSize (length v)) s"
  "length v < 9 \<Longrightarrow> handleCharacteristicWrite CHAR_SHOT_SETTINGS v s
      = logRx (ShotSettingsInvalidSize (length v)) s"
  by (simp_all add: handleCharacteristicWrite_def handleHeaderWrite_def handleFrameWrite_def
      handleShotSettings_def)

lemma logRx_only_log:
  "logRx msg s = s\<lparr>logView := logView (logRx msg s)\<rparr>"
  "last (logView (logRx msg s)) = (''RX'', msg)"
  unfolding logRx_def by (rule logMsg_only_log, rule logMsg_last)

text \<open>
  Claim C9. What the code does with an input it cannot decode. A REQUESTED_STATE write of
  less than 1 byte, a read-from-MMR write of less than 4 bytes and a write-to-MMR write of
  less than 8 leave the whole window as it was: they are dropped, and no line is logged
  for them. A header write of less than 5 bytes, a frame write of less than 8 and a
  shot-settings write of less than 9 change nothing but the log, whose last line is then
  the RX line that gives the size. When the receive buffer and the bytes that arrive
  begin with a complete line that does not parse, one ERROR line is logged, nothing else
  changes, and the loop goes on with the bytes after that line: the channel stays open.
\<close>

theorem C9_decoding_errors_dropped:
  "(length v < 1 \<longrightarrow> handleCharacteristicWrite CHAR_REQUESTED_STATE v s = s)
   \<and> (length v < 4 \<longrightarrow> handleCharacteristicWrite CHAR_READ_FROM_MMR v s = s)
   \<and> (length v < 8 \<longrightarrow> handleCharacteristicWrite CHAR_WRITE_TO_MMR v s = s)
   \<and> (length v < 5 \<longrightarrow>
        (let s' = handleCharacteristicWrite CHAR_HEADER_WRITE v s
         in s' = s\<lparr>logView := logView s'\<rparr>
            \<and> last (logView s') = (''RX'', HeaderInvalidSize (length v))))
   \<and> (length v < 8 \<longrightarrow>
        (let s' = handleCharacteristicWrite CHAR_FRAME_WRITE v s
         in s' = s\<lparr>logView := logView s'\<rparr>
            \<and> last (logView s') = (''RX'', FrameInvalidSize (length v))))
   \<and> (length v < 9 \<longrightarrow>
        (let s' = handleCharacteristicWrite CHAR_SHOT_SETTINGS v s
         in s' = s\<lparr>logView := logView s'\<rparr>
            \<and> last (logView s') = (''RX'', ShotSettingsInvalidSize (length v))))
   \<and> (tcpBuffer s @ incoming = line @ 0x0A # rest
         \<and> line \<noteq> [] \<and> 0x0A \<notin> set line \<and> parse line = None \<longrightarrow>
        onDataReceived parse incoming s
          = processLines parse rest
              (logMsg ''ERROR'' JsonParseError (s\<lparr>tcpBuffer := rest\<rparr>)))"
proof (intro conjI impI)
  assume "length v < 1"
  then show "handleCharacteristicWrite CHAR_REQUESTED_STATE v s = s"
    by (rule short_payload_silent)
next
  assume "length v < 4"
  then show "handleCharacteristicWrite CHAR_READ_FROM_MMR v s = s"
    by (rule short_payload_silent)
next
  assume "length v < 8"
  then show "handleCharacteristicWrite CHAR_WRITE_TO_MMR v s = s"
    by (rule short_payload_silent)
next
  assume "length v < 5"
  then show "let s' = handleCharacteristicWrite CHAR_HEADER_WRITE v s
             in s' = s\<lparr>logView := logView s'\<rparr>
                \<and> last (logView s') = (''RX'', HeaderInvalidSize (length v))"
    unfolding Let_def using logRx_only_log [of "HeaderInvalidSize (length v)" s]
    by (simp only: short_payload_logged)
next
  assume "length v < 8"
  then show "let s' = handleCharacteristicWrite CHAR_FRAME_WRITE v s
             in s' = s\<lparr>logView := logView s'\<rparr>
                \<and> last (logView s') = (''RX'', FrameInvalidSize (length v))"
    unfolding Let_def using logRx_only_log [of "FrameInvalidSize (length v)" s]
    by (simp only: short_payload_logged)
next
  assume "length v < 9"
  then show "let s' = handleCharacteristicWrite CHAR_SHOT_SETTINGS v s
             in s' = s\<lparr>logView := logView s'\<rparr>
                \<and> last (logView s') = (''RX'', ShotSettingsInvalidSize (length v))"
    unfolding Let_def using logRx_only_log [of "ShotSettingsInvalidSize (length v)" s]
    by (simp only: short_payload_logged)
next
  assume a: "tcpBuffer s @ incoming = line @ 0x0A # rest
             \<and> line \<noteq> [] \<and> 0x0A \<notin> set line \<and> parse line = None"
  then have "onDataReceived parse incoming s = processLines parse (line @ 0x0A # rest) s"
    by (simp add: onDataReceived_def)
  also have "\<dots> = processLines parse rest
                     (logMsg ''ERROR'' JsonParseError (s\<lparr>tcpBuffer := rest\<rparr>))"
    using a by (simp add: processLines_malformed_line)
  finally show "onDataReceived parse incoming s
      = processLines parse rest (logMsg ''ERROR'' JsonParseError (s\<lparr>tcpBuffer := rest\<rparr>))" .
qed

text \<open>
  At the initial window: a read-from-MMR write of three bytes, a write-to-MMR write of
  seven and an empty REQUESTED_STATE write leave it as it is, its empty log included,
  while a header write of three bytes logs its size; and a line that does not parse,
  followed by a line that does, logs the error and then handles the second line.
\<close>

theorem C9_decoding_errors_witness:
  "handleCharacteristicWrite CHAR_READ_FROM_MMR [0x00, 0x80, 0x38] initialSim = initialSim
   \<and> handleCharacteristicWrite CHAR_WRITE_TO_MMR
         [0x00, 0x80, 0x38, 0x1C, 0x01, 0x00, 0x00] initialSim = initialSim
   \<and> handleCharacteristicWrite CHAR_REQUESTED_STATE [] initialSim = initialSim
   \<and> logView (handleCharacteristicWrite CHAR_READ_FROM_MMR [0x00, 0x80, 0x38] initialSim) = []
   \<and> last (logView (handleCharacteristicWrite CHAR_HEADER_WRITE [0x01, 0x02, 0x03] initialSim))
       = (''RX'', HeaderInvalidSize 3)
   \<and> logView (onDataReceived (\<lambda>l. if l = [0x7B] then None else Some EvAdvertising)
                 [0x7B, 0x0A, 0x7B, 0x7D, 0x0A] initialSim)
       = [(''ERROR'', JsonParseError), (''PI'', PiAdvertising)]"
proof -
  let ?p = "\<lambda>l :: bytes. if l = [0x7B] then None else Some EvAdvertising"
  have 1: "handleCharacteristicWrite CHAR_READ_FROM_MMR [0x00, 0x80, 0x38] initialSim
             = initialSim"
    using C9_decoding_errors_dropped [of "[0x00, 0x80, 0x38]" initialSim] by simp
  have 2: "handleCharacteristicWrite CHAR_WRITE_TO_MMR
             [0x00, 0x80, 0x38, 0x1C, 0x01, 0x00, 0x00] initialSim = initialSim"
    using C9_decoding_errors_dropped [of "[0x00, 0x80, 0x38, 0x1C, 0x01, 0x00, 0x00]" initialSim]
    by simp
  have 3: "handleCharacteristicWrite CHAR_REQUESTED_STATE [] initialSim = initialSim"
    using C9_decoding_errors_dropped [of "[]" initialSim] by simp
  have 4: "logView (handleCharacteristicWrite CHAR_READ_FROM_MMR [0x00, 0x80, 0x38] initialSim)
             = []"
    unfolding 1 by (simp add: initialSim_def)
  have l3: "length [0x01, 0x02, 0x03 :: u8] < 5"
    by simp
  have 5: "last (logView (handleCharacteristicWrite CHAR_HEADER_WRITE [0x01, 0x02, 0x03]
                   initialSim)) = (''RX'', HeaderInvalidSize (length [0x01, 0x02, 0x03 :: u8]))"
    using C9_decoding_errors_dropped [of "[0x01, 0x02, 0x03]" initialSim, unfolded Let_def] l3
    by blast
  have pre: "tcpBuffer initialSim @ [0x7B, 0x0A, 0x7B, 0x7D, 0x0A]
               = [0x7B] @ 0x0A # [0x7B, 0x7D, 0x0A]
             \<and> [0x7B :: u8] \<noteq> [] \<and> 0x0A \<notin> set [0x7B :: u8] \<and> ?p [0x7B] = None"
    by (simp add: initialSim_def)
  have "onDataReceived ?p [0x7B, 0x0A, 0x7B, 0x7D, 0x0A] initialSim
          = processLines ?p [0x7B, 0x7D, 0x0A]
              (logMsg ''ERROR'' JsonParseError (initialSim\<lparr>tcpBuffer := [0x7B, 0x7D, 0x0A]\<rparr>))"
    using C9_decoding_errors_dropped
            [of _ initialSim "[0x7B, 0x0A, 0x7B, 0x7D, 0x0A]" "[0x7B]" "[0x7B, 0x7D, 0x0A]" ?p] pre
    by blast
  also have "\<dots> = processLines ?p []
                     (handlePiEvent EvAdvertising
                        ((logMsg ''ERROR'' JsonParseError
                            (initialSim\<lparr>tcpBuffer := [0x7B, 0x7D, 0x0A]\<rparr>))\<lparr>tcpBuffer := []\<rparr>))"
    using processLines_parsed_line [of "[0x7B, 0x7D]" ?p EvAdvertising "[]"] by simp
  finally have 6: "logView (onDataReceived ?p [0x7B, 0x0A, 0x7B, 0x7D, 0x0A] initialSim)
                     = [(''ERROR'', JsonParseError), (''PI'', PiAdvertising)]"
    by (simp add: processLines_incomplete logPi_def logMsg_def lastLines_def initialSim_def)
  from 1 2 3 4 5 6 show ?thesis
    by simp
qed

section \<open>The Radio Agent when the Controller disconnects\<close>

text \<open>
  Claim C3. When the Controller's TCP connection closes, the agent of
  \<^verbatim>\<open>pi-daemon/de1-ble-daemon.cpp\<close> keeps advertising as it was, and its service and
  characteristic values; the agent embedded in \<^verbatim>\<open>main.cpp\<close> stops advertising: from
  the attached, advertising agent the first is still advertising after the disconnect and
  the second is not.
\<close>

theorem C3_controller_disconnect_advertising:
  "advertising (onTcpDisconnected d) = advertising d
   \<and> de1Service (onTcpDisconnected d) = de1Service d
   \<and> characteristics (onTcpDisconnected d) = characteristics d
   \<and> advertising attachedDaemon
   \<and> advertising (onTcpDisconnected attachedDaemon)
   \<and> \<not> advertising (embedded_onTcpDisconnected attachedDaemon)"
  by (simp add: onTcpDisconnected_def embedded_onTcpDisconnected_def attachedDaemon_def)

end
